theory Spec2Isabelle
  imports Main "HOL-Library.Word"
begin

section \<open>Data model\<close>

text \<open>
  A JavaScript string is a sequence of UTF-16 code units. The chat texts of this
  application are mostly non-ASCII, so the code units are kept as 16-bit words.
  \<open>js_of\<close> writes an ASCII literal of the source as such a string.
\<close>

type_synonym js_string = "16 word list"

definition js_of :: "string \<Rightarrow> js_string" where
  "js_of s = map of_char s"

text \<open>
  \<^verbatim>\<open>String.prototype.trim\<close> strips white space and line terminators from both ends:
  TAB, LF, VT, FF, CR, SP, NBSP, the Unicode space separators, LS, PS and the BOM.
\<close>

definition js_whitespace :: "16 word \<Rightarrow> bool" where
  "js_whitespace c =
     (c \<in> {0x9, 0xA, 0xB, 0xC, 0xD, 0x20, 0xA0, 0x1680, 0x2028, 0x2029,
            0x202F, 0x205F, 0x3000, 0xFEFF}
      \<or> (0x2000 \<le> c \<and> c \<le> 0x200A))"

definition trim :: "js_string \<Rightarrow> js_string" where
  "trim s = rev (dropWhile js_whitespace (rev (dropWhile js_whitespace s)))"

text \<open>services/chat.ts: the interfaces of the chat API.\<close>

datatype role = User | Assistant

record ChatMessage =
  role :: role
  content :: js_string
  timestamp :: "js_string option"

record ChatSession =
  session_id :: js_string
  welcome_message :: js_string
  status :: js_string

record SendMessageRequest =
  sm_session_id :: js_string
  sm_message :: js_string
  sm_note_content :: js_string
  sm_provider_id :: js_string
  sm_model_name :: js_string
  sm_task_id :: "js_string option"

record CreateSessionRequest =
  cs_task_id :: js_string
  cs_note_content :: js_string
  cs_provider_id :: js_string
  cs_model_name :: js_string

record SendMessageResponse =
  response :: js_string
  resp_session_id :: js_string

text \<open>
  The body of the history reply: \<^verbatim>\<open>response.history\<close> may be missing, which the
  client reads as \<^verbatim>\<open>undefined\<close>.
\<close>

record HistoryResponse =
  history :: "ChatMessage list option"

text \<open>
  What a rejected promise or a throwing statement carries: the failure of the HTTP
  layer (\<^verbatim>\<open>@/utils/request\<close>, an external collaborator whose replies are parameters
  of the model), or the TypeError of reading a property of \<^verbatim>\<open>undefined\<close>.
\<close>

datatype js_error = TransportFailure | TypeError

section \<open>The chat API client (services/chat.ts)\<close>

text \<open>
  \<^verbatim>\<open>try { ... } catch (error) { handler }\<close> over a computation whose outcome is a value
  or a thrown error.
\<close>

definition try_catch :: "js_error + 'a \<Rightarrow> (js_error \<Rightarrow> js_error + 'a) \<Rightarrow> js_error + 'a" where
  "try_catch body handler = (case body of Inl e \<Rightarrow> handler e | Inr v \<Rightarrow> Inr v)"

text \<open>
  Each operation takes the outcome of its one HTTP request. \<open>createSession\<close> and
  \<open>sendMessage\<close> log and rethrow; the other three log and return a default.
\<close>

definition createSession :: "js_error + ChatSession \<Rightarrow> js_error + ChatSession" where
  "createSession post_result = try_catch post_result (\<lambda>error. Inl error)"

definition sendMessage :: "js_error + SendMessageResponse \<Rightarrow> js_error + SendMessageResponse" where
  "sendMessage post_result = try_catch post_result (\<lambda>error. Inl error)"

definition getChatHistory :: "js_error + HistoryResponse \<Rightarrow> js_error + ChatMessage list" where
  "getChatHistory get_result =
     try_catch
       (case get_result of
          Inl e \<Rightarrow> Inl e
        | Inr resp \<Rightarrow> Inr (case history resp of Some h \<Rightarrow> h | None \<Rightarrow> []))
       (\<lambda>error. Inr [])"

definition deleteSession :: "js_error + unit \<Rightarrow> js_error + bool" where
  "deleteSession delete_result =
     try_catch
       (case delete_result of Inl e \<Rightarrow> Inl e | Inr _ \<Rightarrow> Inr True)
       (\<lambda>error. Inr False)"

definition testConnection :: "js_error + unit \<Rightarrow> js_error + bool" where
  "testConnection get_result =
     try_catch
       (case get_result of Inl e \<Rightarrow> Inl e | Inr _ \<Rightarrow> Inr True)
       (\<lambda>error. Inr False)"

section \<open>Array primitives of the language\<close>

text \<open>
  \<^verbatim>\<open>xs[i]\<close>: the element at an index inside the array, \<^verbatim>\<open>undefined\<close> elsewhere.
\<close>

definition js_index :: "'a list \<Rightarrow> int \<Rightarrow> 'a option" where
  "js_index xs i = (if 0 \<le> i \<and> i < int (length xs) then Some (xs ! nat i) else None)"

text \<open>
  A relative position of \<^verbatim>\<open>slice\<close> and \<^verbatim>\<open>splice\<close>: negative positions count from
  the end, and the result is clamped to the array.
\<close>

definition js_relative :: "nat \<Rightarrow> int \<Rightarrow> nat" where
  "js_relative len k = (if k < 0 then nat (max (int len + k) 0) else min (nat k) len)"

text \<open>\<^verbatim>\<open>xs.slice(start, end)\<close>: a copy of the elements from \<open>start\<close> up to \<open>endpos\<close>.\<close>

definition js_slice :: "'a list \<Rightarrow> int \<Rightarrow> int \<Rightarrow> 'a list" where
  "js_slice xs start endpos =
     (let k = js_relative (length xs) start;
          final = js_relative (length xs) endpos
      in take (final - k) (drop k xs))"

text \<open>
  \<^verbatim>\<open>xs.splice(start, deleteCount)\<close> removes in place at most \<open>deleteCount\<close> elements
  from \<open>start\<close> on, as many as the array still has there; the value is the array
  afterwards.
\<close>

definition js_splice :: "'a list \<Rightarrow> int \<Rightarrow> int \<Rightarrow> 'a list" where
  "js_splice xs start deleteCount =
     (let actualStart = js_relative (length xs) start;
          actualDeleteCount = min (nat (max deleteCount 0)) (length xs - actualStart)
      in take actualStart xs @ drop (actualStart + actualDeleteCount) xs)"

section \<open>The chat panel (ChatContainer)\<close>

record props =
  taskId :: js_string
  noteContent :: js_string
  providerId :: js_string
  modelName :: js_string

text \<open>
  The notifications of the panel, by what they say: history loaded, session created,
  session loading failed (session creation failed, in the earlier copy of the
  component), sending failed, the welcome message cannot be deleted, message deleted.
\<close>

datatype toast =
  Toast_history_loaded
  | Toast_session_created
  | Toast_load_failed
  | Toast_create_failed
  | Toast_send_failed
  | Toast_cannot_delete_welcome
  | Toast_message_deleted

fun toast_error :: "toast \<Rightarrow> bool" where
  "toast_error Toast_history_loaded = False"
| "toast_error Toast_session_created = False"
| "toast_error Toast_load_failed = True"
| "toast_error Toast_create_failed = True"
| "toast_error Toast_send_failed = True"
| "toast_error Toast_cannot_delete_welcome = True"
| "toast_error Toast_message_deleted = False"

datatype remote_call =
  Post_sessions CreateSessionRequest
  | Post_messages SendMessageRequest
  | Get_history js_string js_string js_string

text \<open>
  The five state variables of the component, followed by what it has done to the
  outside: the notifications shown, the remote calls issued, and the send requests
  whose promise has not settled yet.
\<close>

record panel =
  sessionId :: js_string
  messages :: "ChatMessage list"
  inputMessage :: js_string
  isLoading :: bool
  isInitializing :: bool
  toasts :: "toast list"
  calls :: "remote_call list"
  in_flight :: "SendMessageRequest list"

definition initial_panel :: panel where
  "initial_panel =
     \<lparr>sessionId = [], messages = [], inputMessage = [], isLoading = False,
      isInitializing = True, toasts = [], calls = [], in_flight = []\<rparr>"

definition welcome_entry :: "ChatSession \<Rightarrow> ChatMessage" where
  "welcome_entry session =
     \<lparr>role = Assistant, content = welcome_message session, timestamp = None\<rparr>"

subsection \<open>Session bootstrap\<close>

text \<open>
  The \<^verbatim>\<open>try\<close> block of \<open>initializeChat\<close>: the panel it leaves behind, and the error
  it threw, if any. The state written before a throw stays written.
\<close>

definition initializeChat_try ::
  "props \<Rightarrow> js_error + ChatSession \<Rightarrow> js_error + HistoryResponse \<Rightarrow> panel
     \<Rightarrow> js_error option \<times> panel" where
  "initializeChat_try p post_result get_result w0 =
     (let w1 = w0\<lparr>isInitializing := True\<rparr>;
          request = \<lparr>cs_task_id = taskId p, cs_note_content = noteContent p,
                     cs_provider_id = providerId p, cs_model_name = modelName p\<rparr>;
          w2 = w1\<lparr>calls := calls w1 @ [Post_sessions request]\<rparr>
      in case createSession post_result of
           Inl error \<Rightarrow> (Some error, w2)
         | Inr session \<Rightarrow>
             let w3 = w2\<lparr>sessionId := session_id session\<rparr>
             in if status session = js_of ''existing'' then
                  let w4 = w3\<lparr>calls := calls w3 @
                              [Get_history (session_id session) (providerId p) (modelName p)]\<rparr>
                  in case getChatHistory get_result of
                       Inl error \<Rightarrow> (Some error, w4)
                     | Inr hist \<Rightarrow>
                         if length hist > 0 then
                           (None, w4\<lparr>messages := hist,
                                      toasts := toasts w4 @ [Toast_history_loaded]\<rparr>)
                         else
                           (None, w4\<lparr>messages := [welcome_entry session]\<rparr>)
                else
                  (None, w3\<lparr>messages := [welcome_entry session],
                             toasts := toasts w3 @ [Toast_session_created]\<rparr>))"

text \<open>\<^verbatim>\<open>catch\<close> shows the failure notification; \<^verbatim>\<open>finally\<close> clears the flag.\<close>

definition initializeChat ::
  "props \<Rightarrow> js_error + ChatSession \<Rightarrow> js_error + HistoryResponse \<Rightarrow> panel \<Rightarrow> panel" where
  "initializeChat p post_result get_result w0 =
     (case initializeChat_try p post_result get_result w0 of
        (thrown, w) \<Rightarrow>
          let w' = (case thrown of
                      Some error \<Rightarrow> w\<lparr>toasts := toasts w @ [Toast_load_failed]\<rparr>
                    | None \<Rightarrow> w)
          in w'\<lparr>isInitializing := False\<rparr>)"

text \<open>
  The earlier copy of the component
  (BillNote_frontend/src/components/Chat/ChatContainer.tsx) does not look at the
  status and fetches no history.
\<close>

definition initializeChat_try_legacy ::
  "props \<Rightarrow> js_error + ChatSession \<Rightarrow> panel \<Rightarrow> js_error option \<times> panel" where
  "initializeChat_try_legacy p post_result w0 =
     (let w1 = w0\<lparr>isInitializing := True\<rparr>;
          request = \<lparr>cs_task_id = taskId p, cs_note_content = noteContent p,
                     cs_provider_id = providerId p, cs_model_name = modelName p\<rparr>;
          w2 = w1\<lparr>calls := calls w1 @ [Post_sessions request]\<rparr>
      in case createSession post_result of
           Inl error \<Rightarrow> (Some error, w2)
         | Inr session \<Rightarrow>
             let w3 = w2\<lparr>sessionId := session_id session\<rparr>
             in (None, w3\<lparr>messages := [welcome_entry session],
                           toasts := toasts w3 @ [Toast_session_created]\<rparr>))"

definition initializeChat_legacy ::
  "props \<Rightarrow> js_error + ChatSession \<Rightarrow> panel \<Rightarrow> panel" where
  "initializeChat_legacy p post_result w0 =
     (case initializeChat_try_legacy p post_result w0 of
        (thrown, w) \<Rightarrow>
          let w' = (case thrown of
                      Some error \<Rightarrow> w\<lparr>toasts := toasts w @ [Toast_create_failed]\<rparr>
                    | None \<Rightarrow> w)
          in w'\<lparr>isInitializing := False\<rparr>)"

subsection \<open>Sending a message\<close>

text \<open>
  \<open>handleSendMessage\<close> up to its \<^verbatim>\<open>await\<close>: the guard, the optimistic append, and the
  request it issues, built from the values of the render it was created in (the
  message is the input before it is cleared). The earlier copy of the component sends
  no task id.
\<close>

definition send_request :: "bool \<Rightarrow> props \<Rightarrow> panel \<Rightarrow> SendMessageRequest" where
  "send_request with_task p w =
     \<lparr>sm_session_id = sessionId w, sm_message = inputMessage w,
      sm_note_content = noteContent p, sm_provider_id = providerId p,
      sm_model_name = modelName p,
      sm_task_id = (if with_task then Some (taskId p) else None)\<rparr>"

definition handleSendMessage_issue ::
  "bool \<Rightarrow> props \<Rightarrow> panel \<Rightarrow> panel \<times> SendMessageRequest option" where
  "handleSendMessage_issue with_task p w =
     (if trim (inputMessage w) = [] \<or> sessionId w = [] \<or> isLoading w then (w, None)
      else
        let userMessage = \<lparr>role = User, content = inputMessage w, timestamp = None\<rparr>;
            w1 = w\<lparr>messages := messages w @ [userMessage]\<rparr>;
            w2 = w1\<lparr>inputMessage := []\<rparr>;
            w3 = w2\<lparr>isLoading := True\<rparr>;
            request = send_request with_task p w
        in (w3\<lparr>calls := calls w3 @ [Post_messages request],
                in_flight := in_flight w3 @ [request]\<rparr>, Some request))"

text \<open>
  The rest of \<open>handleSendMessage\<close>, run when the promise of \<open>sendMessage\<close> settles.
  Both updates of the message list are functional updates: they act on the list as it
  is then.
\<close>

definition handleSendMessage_settle ::
  "panel \<Rightarrow> js_error + SendMessageResponse \<Rightarrow> panel" where
  "handleSendMessage_settle w post_result =
     (let w' = (case sendMessage post_result of
                  Inr resp \<Rightarrow>
                    let assistantMessage =
                          \<lparr>role = Assistant, content = response resp, timestamp = None\<rparr>
                    in w\<lparr>messages := messages w @ [assistantMessage]\<rparr>
                | Inl error \<Rightarrow>
                    let w1 = w\<lparr>toasts := toasts w @ [Toast_send_failed]\<rparr>
                    in w1\<lparr>messages := js_slice (messages w1) 0 (- 1)\<rparr>)
      in w'\<lparr>isLoading := False, in_flight := tl (in_flight w')\<rparr>)"

text \<open>The handler run to its end with nothing else happening during the \<^verbatim>\<open>await\<close>.\<close>

definition handleSendMessage ::
  "bool \<Rightarrow> props \<Rightarrow> panel \<Rightarrow> js_error + SendMessageResponse \<Rightarrow> panel" where
  "handleSendMessage with_task p w post_result =
     (case handleSendMessage_issue with_task p w of
        (w', None) \<Rightarrow> w'
      | (w', Some request) \<Rightarrow> handleSendMessage_settle w' post_result)"

subsection \<open>Deleting a message\<close>

text \<open>
  Reading \<^verbatim>\<open>newMessages[index].role\<close> where the array has no entry throws a TypeError
  before anything is written.
\<close>

definition handleDeleteMessage :: "panel \<Rightarrow> int \<Rightarrow> js_error + panel" where
  "handleDeleteMessage w index =
     (if index = 0 then Inr (w\<lparr>toasts := toasts w @ [Toast_cannot_delete_welcome]\<rparr>)
      else
        let newMessages = messages w
        in case js_index newMessages index of
             None \<Rightarrow> Inl TypeError
           | Some m \<Rightarrow>
               let newMessages' = (if role m = User then js_splice newMessages index 2
                                   else js_splice newMessages index 1)
               in Inr (w\<lparr>messages := newMessages',
                         toasts := toasts w @ [Toast_message_deleted]\<rparr>))"

subsection \<open>The panel as a machine of events\<close>

text \<open>
  After the bootstrap the panel reacts to events, each handler running against the
  state of the latest render: a change of the input field (the field is disabled
  while a send is outstanding), a submission (the send button or Enter without Shift),
  the settling of the oldest outstanding send with the outcome of its request, and a
  click on the delete button of a message (the buttons stay enabled while a send is
  outstanding). An error thrown by an event handler leaves the state as it was.
\<close>

datatype event =
  Change js_string
  | Submit
  | Settle "js_error + SendMessageResponse"
  | Delete int

definition step :: "props \<Rightarrow> panel \<Rightarrow> event \<Rightarrow> panel" where
  "step p w ev =
     (case ev of
        Change s \<Rightarrow> (if isLoading w then w else w\<lparr>inputMessage := s\<rparr>)
      | Submit \<Rightarrow> fst (handleSendMessage_issue True p w)
      | Settle post_result \<Rightarrow>
          (if in_flight w = [] then w else handleSendMessage_settle w post_result)
      | Delete index \<Rightarrow>
          (case handleDeleteMessage w index of Inl error \<Rightarrow> w | Inr w' \<Rightarrow> w'))"

definition run :: "props \<Rightarrow> panel \<Rightarrow> event list \<Rightarrow> panel" where
  "run p w evs = foldl (step p) w evs"

section \<open>Concrete inputs\<close>

text \<open>The data of the examples: a note, a conversation of two exchanges, two sessions.\<close>

definition ex_props :: props where
  "ex_props = \<lparr>taskId = js_of ''t1'', noteContent = js_of ''note'',
               providerId = js_of ''p1'', modelName = js_of ''m1''\<rparr>"

definition ex_W :: ChatMessage where
  "ex_W = \<lparr>role = Assistant, content = js_of ''Hi'', timestamp = None\<rparr>"

definition ex_U1 :: ChatMessage where
  "ex_U1 = \<lparr>role = User, content = js_of ''q1'', timestamp = None\<rparr>"

definition ex_A1 :: ChatMessage where
  "ex_A1 = \<lparr>role = Assistant, content = js_of ''a1'', timestamp = None\<rparr>"

definition ex_U2 :: ChatMessage where
  "ex_U2 = \<lparr>role = User, content = js_of ''q2'', timestamp = None\<rparr>"

definition ex_A2 :: ChatMessage where
  "ex_A2 = \<lparr>role = Assistant, content = js_of ''a2'', timestamp = None\<rparr>"

definition ex_panel :: panel where
  "ex_panel = \<lparr>sessionId = js_of ''s1'', messages = [ex_W, ex_U1, ex_A1, ex_U2, ex_A2],
      inputMessage = js_of ''What is X?'', isLoading = False,
      isInitializing = False, toasts = [], calls = [], in_flight = []\<rparr>"

definition ex_panel_open :: panel where
  "ex_panel_open = ex_panel\<lparr>messages := [ex_W, ex_U1, ex_A1, ex_U2]\<rparr>"

definition ex_session_new :: ChatSession where
  "ex_session_new =
     \<lparr>session_id = js_of ''s1'', welcome_message = js_of ''Hi'', status = js_of ''new''\<rparr>"

definition ex_session_existing :: ChatSession where
  "ex_session_existing =
     \<lparr>session_id = js_of ''s1'', welcome_message = js_of ''Hi'',
      status = js_of ''existing''\<rparr>"

section \<open>Properties of the API client\<close>

lemma getChatHistory_total: "\<exists>h. getChatHistory r = Inr h"
  by (cases r) (simp_all add: getChatHistory_def try_catch_def)

text \<open>
  Claim C8. The error contract of the client is asymmetric: \<open>createSession\<close> and
  \<open>sendMessage\<close> hand the transport error to their caller; \<open>getChatHistory\<close> returns
  the empty sequence on failure; \<open>deleteSession\<close> and \<open>testConnection\<close> return false on
  failure and true on success, and never raise.
\<close>

theorem api_error_contract:
  "createSession (Inl e) = Inl e
   \<and> sendMessage (Inl e) = Inl e
   \<and> createSession (Inr s) = Inr s
   \<and> sendMessage (Inr r) = Inr r
   \<and> getChatHistory (Inl e) = Inr []
   \<and> deleteSession (Inl e) = Inr False
   \<and> deleteSession (Inr u) = Inr True
   \<and> testConnection (Inl e) = Inr False
   \<and> testConnection (Inr u) = Inr True
   \<and> (\<exists>h. getChatHistory x = Inr h)
   \<and> (\<exists>b. deleteSession y = Inr b)
   \<and> (\<exists>b. testConnection y = Inr b)"
  by (cases x; cases y)
     (auto simp add: createSession_def sendMessage_def getChatHistory_def
        deleteSession_def testConnection_def try_catch_def)

section \<open>Properties of the array primitives\<close>

lemma js_index_Some: "0 \<le> i \<Longrightarrow> i < int (length xs) \<Longrightarrow> js_index xs i = Some (xs ! nat i)"
  by (simp add: js_index_def)

lemma js_index_None: "i < 0 \<or> int (length xs) \<le> i \<Longrightarrow> js_index xs i = None"
  by (auto simp add: js_index_def)

lemma js_splice_eq:
  "0 \<le> i \<Longrightarrow> 0 \<le> k \<Longrightarrow> js_splice xs i k = take (nat i) xs @ drop (nat i + nat k) xs"
  by (auto simp add: js_splice_def js_relative_def Let_def min_def max_def)

lemma js_slice_drop_last: "js_slice xs 0 (- 1) = butlast xs"
proof -
  have "nat (max (int (length xs) + - 1) 0) = length xs - 1"
    by (cases xs) simp_all
  then show ?thesis
    by (simp add: js_slice_def js_relative_def Let_def butlast_conv_take)
qed
    
section \<open>Deleting a message\<close>

lemma handleDeleteMessage_in_bounds:
  assumes "0 < i" "i < int (length (messages w))"
  shows "handleDeleteMessage w i =
     Inr (w\<lparr>messages := take (nat i) (messages w) @
               drop (nat i + (if role (messages w ! nat i) = User then 2 else 1)) (messages w),
            toasts := toasts w @ [Toast_message_deleted]\<rparr>)"
  using assms by (simp add: handleDeleteMessage_def Let_def js_index_Some js_splice_eq)

text \<open>
  Claim C1. On the list [W, U1, A1, U2, A2], with U1 a user turn and A1 an assistant
  turn: deleting index 1 gives [W, U2, A2], the user turn and the entry after it going
  together; deleting index 2 gives [W, U1, U2, A2]; deleting index 0 changes nothing
  but the notifications, which gain the rejection notice.
\<close>

theorem delete_pairing_example:
  assumes "messages w = [W, U1, A1, U2, A2]" and "role U1 = User" and "role A1 = Assistant"
  shows "handleDeleteMessage w 1 =
           Inr (w\<lparr>messages := [W, U2, A2], toasts := toasts w @ [Toast_message_deleted]\<rparr>)
       \<and> handleDeleteMessage w 2 =
           Inr (w\<lparr>messages := [W, U1, U2, A2], toasts := toasts w @ [Toast_message_deleted]\<rparr>)
       \<and> handleDeleteMessage w 0 =
           Inr (w\<lparr>toasts := toasts w @ [Toast_cannot_delete_welcome]\<rparr>)
       \<and> messages (w\<lparr>toasts := toasts w @ [Toast_cannot_delete_welcome]\<rparr>) = messages w
       \<and> toast_error Toast_cannot_delete_welcome"
proof -
  have "handleDeleteMessage w 1 =
           Inr (w\<lparr>messages := [W, U2, A2], toasts := toasts w @ [Toast_message_deleted]\<rparr>)"
    using assms by (simp add: handleDeleteMessage_in_bounds)
  moreover have "handleDeleteMessage w 2 =
           Inr (w\<lparr>messages := [W, U1, U2, A2], toasts := toasts w @ [Toast_message_deleted]\<rparr>)"
    using assms by (simp add: handleDeleteMessage_in_bounds)
  moreover have "handleDeleteMessage w 0 =
           Inr (w\<lparr>toasts := toasts w @ [Toast_cannot_delete_welcome]\<rparr>)"
    by (simp add: handleDeleteMessage_def)
  ultimately show ?thesis by simp
qed

theorem delete_pairing_example_witness:
  "messages ex_panel = [ex_W, ex_U1, ex_A1, ex_U2, ex_A2]
   \<and> role ex_U1 = User \<and> role ex_A1 = Assistant
   \<and> handleDeleteMessage ex_panel 1 =
       Inr (ex_panel\<lparr>messages := [ex_W, ex_U2, ex_A2], toasts := [Toast_message_deleted]\<rparr>)
   \<and> handleDeleteMessage ex_panel 2 =
       Inr (ex_panel\<lparr>messages := [ex_W, ex_U1, ex_U2, ex_A2], toasts := [Toast_message_deleted]\<rparr>)
   \<and> handleDeleteMessage ex_panel 0 =
       Inr (ex_panel\<lparr>toasts := [Toast_cannot_delete_welcome]\<rparr>)"
proof -
  have h1: "messages ex_panel = [ex_W, ex_U1, ex_A1, ex_U2, ex_A2]"
    by (simp add: ex_panel_def)
  have h2: "role ex_U1 = User" by (simp add: ex_U1_def)
  have h3: "role ex_A1 = Assistant" by (simp add: ex_A1_def)
  have t: "toasts ex_panel = []" by (simp add: ex_panel_def)
  show ?thesis
    using delete_pairing_example [OF h1 h2 h3] h1 h2 h3 t by simp
qed

text \<open>
  Claim C9. Deletion succeeds at every index i with 0 < i < length of the list; a user
  turn at the last position goes alone, the removal of two being clipped at the end of
  the list; at an index i > 0 at or past the end the handler reads the role of an entry
  that is not there and throws. The delete buttons are rendered for the indices
  0 < i < length only.
\<close>

theorem delete_total_in_bounds_only:
  "(0 < i \<and> i < int (length (messages w)) \<longrightarrow>
      (\<exists>w'. handleDeleteMessage w i = Inr w'
         \<and> messages w' = take (nat i) (messages w) @
              drop (nat i + (if role (messages w ! nat i) = User then 2 else 1)) (messages w)))
   \<and> (0 < i \<and> i = int (length (messages w)) - 1 \<and> role (messages w ! nat i) = User \<longrightarrow>
      (\<exists>w'. handleDeleteMessage w i = Inr w' \<and> messages w' = butlast (messages w)))
   \<and> (0 < i \<and> int (length (messages w)) \<le> i \<longrightarrow> handleDeleteMessage w i = Inl TypeError)"
proof (intro conjI impI)
  assume "0 < i \<and> i < int (length (messages w))"
  then show "\<exists>w'. handleDeleteMessage w i = Inr w'
         \<and> messages w' = take (nat i) (messages w) @
              drop (nat i + (if role (messages w ! nat i) = User then 2 else 1)) (messages w)"
    by (simp add: handleDeleteMessage_in_bounds)
next
  assume a: "0 < i \<and> i = int (length (messages w)) - 1 \<and> role (messages w ! nat i) = User"
  then have b: "0 < i" "i < int (length (messages w))" by auto
  have n: "nat i = length (messages w) - 1" using a by auto
  have "take (nat i) (messages w) @ drop (nat i + 2) (messages w) = butlast (messages w)"
    unfolding n by (simp add: butlast_conv_take)
  moreover have "role (messages w ! nat i) = User" using a by blast
  ultimately show "\<exists>w'. handleDeleteMessage w i = Inr w' \<and> messages w' = butlast (messages w)"
    by (simp add: handleDeleteMessage_in_bounds [OF b])
next
  assume "0 < i \<and> int (length (messages w)) \<le> i"
  then show "handleDeleteMessage w i = Inl TypeError"
    by (simp add: handleDeleteMessage_def js_index_None)
qed

theorem delete_total_in_bounds_only_witness:
  "(0::int) < 3 \<and> 3 < int (length (messages ex_panel_open))
   \<and> 3 = int (length (messages ex_panel_open)) - 1
   \<and> role (messages ex_panel_open ! nat 3) = User
   \<and> int (length (messages ex_panel_open)) \<le> 4
   \<and> (\<exists>w'. handleDeleteMessage ex_panel_open 3 = Inr w'
          \<and> messages w' = [ex_W, ex_U1, ex_A1])
   \<and> handleDeleteMessage ex_panel_open 4 = Inl TypeError"
proof -
  have m: "messages ex_panel_open = [ex_W, ex_U1, ex_A1, ex_U2]"
    by (simp add: ex_panel_open_def)
  have r: "role ex_U2 = User" by (simp add: ex_U2_def)
  show ?thesis
    using delete_total_in_bounds_only [of 3 ex_panel_open]
      delete_total_in_bounds_only [of 4 ex_panel_open] m r
    by simp
qed

section \<open>Session bootstrap\<close>

lemma initializeChat_try_failure:
  "initializeChat_try p (Inl e) g w0 =
     (Some e, w0\<lparr>isInitializing := True,
                 calls := calls w0 @ [Post_sessions
                   \<lparr>cs_task_id = taskId p, cs_note_content = noteContent p,
                    cs_provider_id = providerId p, cs_model_name = modelName p\<rparr>]\<rparr>)"
  by (simp add: initializeChat_try_def createSession_def try_catch_def Let_def)

lemma initializeChat_try_thrown:
  "fst (initializeChat_try p c g w0) = (case c of Inl e \<Rightarrow> Some e | Inr s \<Rightarrow> None)"
proof (cases c)
  case (Inl e)
  then show ?thesis by (simp add: initializeChat_try_failure)
next
  case (Inr s)
  obtain h where "getChatHistory g = Inr h"
    using getChatHistory_total by blast
  with Inr show ?thesis
    by (simp add: initializeChat_try_def createSession_def try_catch_def Let_def)
qed

lemma initializeChat_new:
  assumes "status session \<noteq> js_of ''existing''"
  shows "initializeChat p (Inr session) g w0 =
     w0\<lparr>isInitializing := False, sessionId := session_id session,
         messages := [welcome_entry session],
         toasts := toasts w0 @ [Toast_session_created],
         calls := calls w0 @ [Post_sessions
                   \<lparr>cs_task_id = taskId p, cs_note_content = noteContent p,
                    cs_provider_id = providerId p, cs_model_name = modelName p\<rparr>]\<rparr>"
  using assms
  by (simp add: initializeChat_def initializeChat_try_def createSession_def try_catch_def Let_def)

lemma initializeChat_existing:
  assumes "status session = js_of ''existing''" and "getChatHistory g = Inr h"
  shows "initializeChat p (Inr session) g w0 =
     w0\<lparr>isInitializing := False, sessionId := session_id session,
         messages := (if h = [] then [welcome_entry session] else h),
         toasts := (if h = [] then toasts w0 else toasts w0 @ [Toast_history_loaded]),
         calls := calls w0 @ [Post_sessions
                   \<lparr>cs_task_id = taskId p, cs_note_content = noteContent p,
                    cs_provider_id = providerId p, cs_model_name = modelName p\<rparr>,
                   Get_history (session_id session) (providerId p) (modelName p)]\<rparr>"
  using assms
  by (simp add: initializeChat_def initializeChat_try_def createSession_def try_catch_def Let_def)

lemma initializeChat_failure:
  "initializeChat p (Inl e) g w0 =
     w0\<lparr>isInitializing := False,
         toasts := toasts w0 @ [Toast_load_failed],
         calls := calls w0 @ [Post_sessions
                   \<lparr>cs_task_id = taskId p, cs_note_content = noteContent p,
                    cs_provider_id = providerId p, cs_model_name = modelName p\<rparr>]\<rparr>"
  by (simp add: initializeChat_def initializeChat_try_failure)

lemma initializeChat_legacy_success:
  "initializeChat_legacy p (Inr session) w0 =
     w0\<lparr>isInitializing := False, sessionId := session_id session,
         messages := [welcome_entry session],
         toasts := toasts w0 @ [Toast_session_created],
         calls := calls w0 @ [Post_sessions
                   \<lparr>cs_task_id = taskId p, cs_note_content = noteContent p,
                    cs_provider_id = providerId p, cs_model_name = modelName p\<rparr>]\<rparr>"
  by (simp add: initializeChat_legacy_def initializeChat_try_legacy_def createSession_def
      try_catch_def Let_def)

lemma getChatHistory_fetched: "getChatHistory (Inr \<lparr>history = Some h\<rparr>) = Inr h"
  by (simp add: getChatHistory_def try_catch_def)

lemma js_of_new_not_existing: "js_of ''new'' \<noteq> js_of ''existing''"
  by (simp add: js_of_def)

text \<open>
  Claim C4. After a successful bootstrap: with status "new" the message list is the one
  assistant entry carrying the welcome message of the session; with status "existing"
  and a fetched history that is not empty it is that history, in its order; with status
  "existing" and an empty history it is the single welcome entry again. The fetched
  history is what \<open>getChatHistory\<close> returns, the history of the reply when the request
  succeeds. Once the session is created the bootstrap cannot fail. The earlier copy of
  the component fetches no history and always sets the welcome entry.
\<close>

theorem bootstrap_postcondition:
  "(status session = js_of ''new'' \<longrightarrow>
      messages (initializeChat p (Inr session) g w0) =
        [\<lparr>role = Assistant, content = welcome_message session, timestamp = None\<rparr>])
   \<and> (status session = js_of ''existing'' \<and> getChatHistory g = Inr h \<and> h \<noteq> [] \<longrightarrow>
      messages (initializeChat p (Inr session) g w0) = h)
   \<and> (status session = js_of ''existing'' \<and> getChatHistory g = Inr [] \<longrightarrow>
      messages (initializeChat p (Inr session) g w0) =
        [\<lparr>role = Assistant, content = welcome_message session, timestamp = None\<rparr>])
   \<and> getChatHistory (Inr \<lparr>history = Some h\<rparr>) = Inr h
   \<and> fst (initializeChat_try p (Inr session) g w0) = None
   \<and> messages (initializeChat_legacy p (Inr session) w0) =
        [\<lparr>role = Assistant, content = welcome_message session, timestamp = None\<rparr>]"
proof (intro conjI impI)
  assume "status session = js_of ''new''"
  then have "status session \<noteq> js_of ''existing''"
    using js_of_new_not_existing by simp
  then show "messages (initializeChat p (Inr session) g w0) =
        [\<lparr>role = Assistant, content = welcome_message session, timestamp = None\<rparr>]"
    by (simp add: initializeChat_new welcome_entry_def)
next
  assume a: "status session = js_of ''existing'' \<and> getChatHistory g = Inr h \<and> h \<noteq> []"
  then have "status session = js_of ''existing''" and "getChatHistory g = Inr h"
    by blast+
  from initializeChat_existing [OF this] a
  show "messages (initializeChat p (Inr session) g w0) = h"
    by simp
next
  assume "status session = js_of ''existing'' \<and> getChatHistory g = Inr []"
  then have "status session = js_of ''existing''" and "getChatHistory g = Inr []"
    by blast+
  from initializeChat_existing [OF this]
  show "messages (initializeChat p (Inr session) g w0) =
        [\<lparr>role = Assistant, content = welcome_message session, timestamp = None\<rparr>]"
    by (simp add: welcome_entry_def)
next
  show "getChatHistory (Inr \<lparr>history = Some h\<rparr>) = Inr h"
    by (rule getChatHistory_fetched)
  show "fst (initializeChat_try p (Inr session) g w0) = None"
    by (simp add: initializeChat_try_thrown)
  show "messages (initializeChat_legacy p (Inr session) w0) =
        [\<lparr>role = Assistant, content = welcome_message session, timestamp = None\<rparr>]"
    by (simp add: initializeChat_legacy_success welcome_entry_def)
qed

theorem bootstrap_postcondition_witness:
  "status ex_session_new = js_of ''new''
   \<and> status ex_session_existing = js_of ''existing''
   \<and> getChatHistory (Inr \<lparr>history = Some [ex_W, ex_U1, ex_A1]\<rparr>) = Inr [ex_W, ex_U1, ex_A1]
   \<and> [ex_W, ex_U1, ex_A1] \<noteq> []
   \<and> getChatHistory (Inr \<lparr>history = Some []\<rparr>) = Inr []
   \<and> messages (initializeChat ex_props (Inr ex_session_new) (Inl TransportFailure) initial_panel)
       = [ex_W]
   \<and> messages (initializeChat ex_props (Inr ex_session_existing)
         (Inr \<lparr>history = Some [ex_W, ex_U1, ex_A1]\<rparr>) initial_panel) = [ex_W, ex_U1, ex_A1]
   \<and> messages (initializeChat ex_props (Inr ex_session_existing)
         (Inr \<lparr>history = Some []\<rparr>) initial_panel) = [ex_W]"
proof -
  have n: "status ex_session_new = js_of ''new''"
    and wn: "welcome_message ex_session_new = js_of ''Hi''"
    by (simp_all add: ex_session_new_def)
  have e: "status ex_session_existing = js_of ''existing''"
    and we: "welcome_message ex_session_existing = js_of ''Hi''"
    by (simp_all add: ex_session_existing_def)
  have f: "getChatHistory (Inr \<lparr>history = Some [ex_W, ex_U1, ex_A1]\<rparr>) = Inr [ex_W, ex_U1, ex_A1]"
    and f0: "getChatHistory (Inr \<lparr>history = Some []\<rparr>) = Inr []"
    by (simp_all add: getChatHistory_def try_catch_def)
  show ?thesis
    using bootstrap_postcondition
            [of ex_session_new ex_props "Inl TransportFailure" initial_panel "[]"]
          bootstrap_postcondition
            [of ex_session_existing ex_props "Inr \<lparr>history = Some [ex_W, ex_U1, ex_A1]\<rparr>"
               initial_panel "[ex_W, ex_U1, ex_A1]"]
          bootstrap_postcondition
            [of ex_session_existing ex_props "Inr \<lparr>history = Some []\<rparr>" initial_panel "[]"]
          n wn e we f f0
    by (simp add: ex_W_def)
qed

section \<open>Sending a message\<close>

lemma issue_guarded:
  assumes "trim (inputMessage w) = [] \<or> sessionId w = [] \<or> isLoading w"
  shows "handleSendMessage_issue t p w = (w, None)"
  using assms by (auto simp add: handleSendMessage_issue_def)

lemma issue_open:
  assumes "trim (inputMessage w) \<noteq> []" and "sessionId w \<noteq> []" and "\<not> isLoading w"
  shows "handleSendMessage_issue t p w =
     (w\<lparr>messages := messages w @ [\<lparr>role = User, content = inputMessage w, timestamp = None\<rparr>],
        inputMessage := [], isLoading := True,
        calls := calls w @ [Post_messages (send_request t p w)],
        in_flight := in_flight w @ [send_request t p w]\<rparr>,
      Some (send_request t p w))"
  using assms by (simp add: handleSendMessage_issue_def Let_def)

lemma settle_failure:
  "handleSendMessage_settle w (Inl e) =
     w\<lparr>toasts := toasts w @ [Toast_send_failed], messages := butlast (messages w),
       isLoading := False, in_flight := tl (in_flight w)\<rparr>"
  by (simp add: handleSendMessage_settle_def sendMessage_def try_catch_def Let_def
      js_slice_drop_last)

lemma settle_success:
  "handleSendMessage_settle w (Inr resp) =
     w\<lparr>messages := messages w @ [\<lparr>role = Assistant, content = response resp, timestamp = None\<rparr>],
       isLoading := False, in_flight := tl (in_flight w)\<rparr>"
  by (simp add: handleSendMessage_settle_def sendMessage_def try_catch_def Let_def)

lemma handleSendMessage_guarded:
  assumes "trim (inputMessage w) = [] \<or> sessionId w = [] \<or> isLoading w"
  shows "handleSendMessage t p w r = w"
  by (simp add: handleSendMessage_def issue_guarded [OF assms])

text \<open>
  When nothing else happens during the \<^verbatim>\<open>await\<close>, a send whose remote call fails
  leaves the message list as it was: the user turn is appended, the request is issued,
  and the rollback removes that turn again. The failure is notified and the sending
  flag is cleared. Both copies of the component agree.
\<close>

lemma failed_send_rollback:
  "messages (handleSendMessage t p w (Inl e)) = messages w
   \<and> (trim (inputMessage w) \<noteq> [] \<and> sessionId w \<noteq> [] \<and> \<not> isLoading w \<longrightarrow>
        messages (fst (handleSendMessage_issue t p w)) =
          messages w @ [\<lparr>role = User, content = inputMessage w, timestamp = None\<rparr>]
        \<and> snd (handleSendMessage_issue t p w) = Some (send_request t p w)
        \<and> toasts (handleSendMessage t p w (Inl e)) = toasts w @ [Toast_send_failed]
        \<and> \<not> isLoading (handleSendMessage t p w (Inl e)))"
proof (cases "trim (inputMessage w) = [] \<or> sessionId w = [] \<or> isLoading w")
  case True
  have "handleSendMessage t p w (Inl e) = w"
    using True by (rule handleSendMessage_guarded)
  with True show ?thesis by auto
next
  case False
  then have g: "trim (inputMessage w) \<noteq> []" "sessionId w \<noteq> []" "\<not> isLoading w"
    by simp_all
  show ?thesis
    by (simp add: handleSendMessage_def issue_open [OF g] settle_failure)
qed

lemma failed_send_rollback_at_example:
  "trim (inputMessage ex_panel) \<noteq> [] \<and> sessionId ex_panel \<noteq> [] \<and> \<not> isLoading ex_panel
   \<and> messages (handleSendMessage True ex_props ex_panel (Inl TransportFailure)) =
       [ex_W, ex_U1, ex_A1, ex_U2, ex_A2]
   \<and> messages (fst (handleSendMessage_issue True ex_props ex_panel)) =
       [ex_W, ex_U1, ex_A1, ex_U2, ex_A2,
        \<lparr>role = User, content = js_of ''What is X?'', timestamp = None\<rparr>]
   \<and> toasts (handleSendMessage True ex_props ex_panel (Inl TransportFailure)) =
       [Toast_send_failed]"
proof -
  have g: "trim (inputMessage ex_panel) \<noteq> []" "sessionId ex_panel \<noteq> []"
      "\<not> isLoading ex_panel"
    by code_simp+
  have f: "messages ex_panel = [ex_W, ex_U1, ex_A1, ex_U2, ex_A2]"
      "inputMessage ex_panel = js_of ''What is X?''" "toasts ex_panel = []"
    by (simp_all add: ex_panel_def)
  show ?thesis
    using failed_send_rollback [of True ex_props ex_panel TransportFailure] g f by simp
qed

text \<open>
  Claim C2 says that after a failed send the message list is the list L from before the
  attempt. The code does not keep to this. With L = [W, U1, A1] resumed from the history,
  the user types a question and submits it, deletes the question (index 3) while the
  request is outstanding, and the request fails: the rollback removes the last entry of
  the list as it is then, which is A1, an entry of L, and the list ends as [W, U1].
\<close>

theorem rollback_after_delete_removes_earlier_entry:
  "messages (initializeChat ex_props (Inr ex_session_existing)
        (Inr \<lparr>history = Some [ex_W, ex_U1, ex_A1]\<rparr>) initial_panel)
     = [ex_W, ex_U1, ex_A1]
   \<and> messages (run ex_props
        (initializeChat ex_props (Inr ex_session_existing)
           (Inr \<lparr>history = Some [ex_W, ex_U1, ex_A1]\<rparr>) initial_panel)
        [Change (js_of ''What is X?''), Submit]) =
       [ex_W, ex_U1, ex_A1, \<lparr>role = User, content = js_of ''What is X?'', timestamp = None\<rparr>]
   \<and> messages (run ex_props
        (initializeChat ex_props (Inr ex_session_existing)
           (Inr \<lparr>history = Some [ex_W, ex_U1, ex_A1]\<rparr>) initial_panel)
        [Change (js_of ''What is X?''), Submit, Delete 3]) = [ex_W, ex_U1, ex_A1]
   \<and> messages (run ex_props
        (initializeChat ex_props (Inr ex_session_existing)
           (Inr \<lparr>history = Some [ex_W, ex_U1, ex_A1]\<rparr>) initial_panel)
        [Change (js_of ''What is X?''), Submit, Delete 3, Settle (Inl TransportFailure)]) =
       [ex_W, ex_U1]"
  by code_simp

text \<open>
  Claim C5. A send that passes the guard with input m and is answered with
  response r and any session id appends exactly two entries, the user turn with
  content m and then the assistant turn with content r, after the entries that were
  there, which stay as they were.
\<close>

theorem successful_send_appends:
  assumes "trim m \<noteq> []" and "sessionId w \<noteq> []" and "\<not> isLoading w"
    and "inputMessage w = m"
  shows "messages (handleSendMessage t p w (Inr \<lparr>response = r, resp_session_id = s\<rparr>)) =
           messages w @ [\<lparr>role = User, content = m, timestamp = None\<rparr>,
                         \<lparr>role = Assistant, content = r, timestamp = None\<rparr>]
       \<and> snd (handleSendMessage_issue t p w) = Some (send_request t p w)
       \<and> sm_message (send_request t p w) = m"
proof -
  have g: "trim (inputMessage w) \<noteq> []" using assms by simp
  show ?thesis
    using assms(4)
    by (simp add: handleSendMessage_def issue_open [OF g assms(2) assms(3)] settle_success
        send_request_def)
qed

theorem successful_send_appends_witness:
  "trim (js_of ''What is X?'') \<noteq> [] \<and> sessionId ex_panel \<noteq> [] \<and> \<not> isLoading ex_panel
   \<and> inputMessage ex_panel = js_of ''What is X?''
   \<and> messages (handleSendMessage True ex_props ex_panel
        (Inr \<lparr>response = js_of ''X is...'', resp_session_id = js_of ''s1''\<rparr>)) =
       [ex_W, ex_U1, ex_A1, ex_U2, ex_A2,
        \<lparr>role = User, content = js_of ''What is X?'', timestamp = None\<rparr>,
        \<lparr>role = Assistant, content = js_of ''X is...'', timestamp = None\<rparr>]"
proof -
  have g: "trim (js_of ''What is X?'') \<noteq> []" "sessionId ex_panel \<noteq> []"
      "\<not> isLoading ex_panel"
    by code_simp+
  have f: "messages ex_panel = [ex_W, ex_U1, ex_A1, ex_U2, ex_A2]"
      "inputMessage ex_panel = js_of ''What is X?''"
    by (simp_all add: ex_panel_def)
  show ?thesis
    using successful_send_appends [OF g f(2), of True ex_props "js_of ''X is...''" "js_of ''s1''"]
      g f
    by simp
qed

section \<open>The send guard and the outstanding sends\<close>

lemma settle_flags:
  "isLoading (handleSendMessage_settle w r) = False
   \<and> in_flight (handleSendMessage_settle w r) = tl (in_flight w)"
  by (cases r) (simp_all add: settle_failure settle_success)

lemma handleDeleteMessage_frame:
  assumes "handleDeleteMessage w i = Inr w'"
  shows "isLoading w' = isLoading w \<and> in_flight w' = in_flight w
       \<and> sessionId w' = sessionId w \<and> calls w' = calls w"
  using assms
  by (auto simp add: handleDeleteMessage_def Let_def split: if_splits option.splits)

lemma step_one_send:
  assumes "isLoading w \<longleftrightarrow> in_flight w \<noteq> []" and "length (in_flight w) \<le> 1"
  shows "(isLoading (step p w ev) \<longleftrightarrow> in_flight (step p w ev) \<noteq> [])
       \<and> length (in_flight (step p w ev)) \<le> 1"
proof (cases ev)
  case (Change s)
  with assms show ?thesis by (simp add: step_def)
next
  case Submit
  show ?thesis
  proof (cases "trim (inputMessage w) = [] \<or> sessionId w = [] \<or> isLoading w")
    case True
    with assms Submit show ?thesis by (simp add: step_def issue_guarded)
  next
    case False
    then have g: "trim (inputMessage w) \<noteq> []" "sessionId w \<noteq> []" "\<not> isLoading w"
      by simp_all
    with assms have "in_flight w = []" by simp
    with Submit show ?thesis by (simp add: step_def issue_open [OF g])
  qed
next
  case (Settle r)
  show ?thesis
  proof (cases "in_flight w = []")
    case True
    with assms Settle show ?thesis by (simp add: step_def)
  next
    case False
    with assms(2) have "tl (in_flight w) = []"
      by (cases "in_flight w") simp_all
    with False Settle show ?thesis by (simp add: step_def settle_flags)
  qed
next
  case (Delete i)
  show ?thesis
  proof (cases "handleDeleteMessage w i")
    case (Inl e)
    with assms Delete show ?thesis by (simp add: step_def)
  next
    case (Inr w')
    with assms Delete handleDeleteMessage_frame [OF Inr] show ?thesis
      by (simp add: step_def)
  qed
qed

lemma run_one_send:
  assumes "isLoading w \<longleftrightarrow> in_flight w \<noteq> []" and "length (in_flight w) \<le> 1"
  shows "(isLoading (run p w evs) \<longleftrightarrow> in_flight (run p w evs) \<noteq> [])
       \<and> length (in_flight (run p w evs)) \<le> 1"
  using assms
proof (induction evs arbitrary: w)
  case Nil
  then show ?case by (simp add: run_def)
next
  case (Cons ev evs)
  have "run p w (ev # evs) = run p (step p w ev) evs"
    by (simp add: run_def)
  moreover note step_one_send [OF Cons.prems, of p ev]
  ultimately show ?case using Cons.IH by simp
qed

lemma initializeChat_idle:
  "isLoading (initializeChat p c g w0) = isLoading w0
   \<and> in_flight (initializeChat p c g w0) = in_flight w0"
proof (cases c)
  case (Inl e)
  then show ?thesis by (simp add: initializeChat_failure)
next
  case (Inr session)
  obtain h where h: "getChatHistory g = Inr h"
    using getChatHistory_total by blast
  show ?thesis
  proof (cases "status session = js_of ''existing''")
    case True
    then show ?thesis using Inr by (simp add: initializeChat_existing [OF True h])
  next
    case False
    then show ?thesis using Inr by (simp add: initializeChat_new)
  qed
qed

text \<open>
  Claim C6. A submission while the sending flag is set, or while the trimmed input is
  empty, or while there is no session id, leaves the panel as it is: no entry is added
  and no remote call is issued. Over every sequence of events after the bootstrap at
  most one send is outstanding, and the sending flag is set exactly while one is.
\<close>

theorem submit_guard:
  "(isLoading w \<or> trim (inputMessage w) = [] \<or> sessionId w = [] \<longrightarrow>
      handleSendMessage_issue t p w = (w, None)
      \<and> step p w Submit = w
      \<and> handleSendMessage t p w r = w)
   \<and> length (in_flight (run p (initializeChat p c g initial_panel) evs)) \<le> 1
   \<and> (isLoading (run p (initializeChat p c g initial_panel) evs) \<longleftrightarrow>
        in_flight (run p (initializeChat p c g initial_panel) evs) \<noteq> [])"
proof -
  have "handleSendMessage_issue t p w = (w, None) \<and> step p w Submit = w
        \<and> handleSendMessage t p w r = w"
    if "isLoading w \<or> trim (inputMessage w) = [] \<or> sessionId w = []"
  proof -
    from that have g: "trim (inputMessage w) = [] \<or> sessionId w = [] \<or> isLoading w"
      by blast
    show ?thesis
      by (simp add: step_def issue_guarded [OF g] handleSendMessage_guarded [OF g])
  qed
  moreover have "isLoading (initializeChat p c g initial_panel) \<longleftrightarrow>
      in_flight (initializeChat p c g initial_panel) \<noteq> []"
    and "length (in_flight (initializeChat p c g initial_panel)) \<le> 1"
    by (simp_all add: initializeChat_idle initial_panel_def)
  then have "(isLoading (run p (initializeChat p c g initial_panel) evs) \<longleftrightarrow>
        in_flight (run p (initializeChat p c g initial_panel) evs) \<noteq> [])
      \<and> length (in_flight (run p (initializeChat p c g initial_panel) evs)) \<le> 1"
    by (rule run_one_send)
  ultimately show ?thesis by blast
qed

theorem submit_guard_witness:
  "isLoading (fst (handleSendMessage_issue True ex_props ex_panel))
   \<and> handleSendMessage_issue True ex_props (fst (handleSendMessage_issue True ex_props ex_panel))
       = (fst (handleSendMessage_issue True ex_props ex_panel), None)
   \<and> length (messages (step ex_props (fst (handleSendMessage_issue True ex_props ex_panel)) Submit))
       = 6
   \<and> length (in_flight (run ex_props
        (initializeChat ex_props (Inr ex_session_new) (Inl TransportFailure) initial_panel)
        [Change (js_of ''hi''), Submit, Submit])) \<le> 1"
proof -
  have l: "isLoading (fst (handleSendMessage_issue True ex_props ex_panel))"
    by code_simp
  have m: "length (messages (fst (handleSendMessage_issue True ex_props ex_panel))) = 6"
    by code_simp
  show ?thesis
    using submit_guard [of "fst (handleSendMessage_issue True ex_props ex_panel)" True ex_props
        "Inl TransportFailure" "Inr ex_session_new" "Inl TransportFailure"
        "[Change (js_of ''hi''), Submit, Submit]"] l m
    by simp
qed

section \<open>Failure of the bootstrap\<close>








section \<open>A failed history fetch\<close>

text \<open>
  Claim C3, as the specification states it, does not hold: a transport failure of the
  history request of an "existing" session does not reach the failure path of the
  bootstrap. Here the bootstrap ends without a thrown error, with the welcome entry as
  the message list, the session id set and no notification at all.
\<close>

theorem history_failure_counterexample:
  "fst (initializeChat_try ex_props (Inr ex_session_existing) (Inl TransportFailure)
          initial_panel) = None
   \<and> messages (initializeChat ex_props (Inr ex_session_existing) (Inl TransportFailure)
          initial_panel) = [ex_W]
   \<and> sessionId (initializeChat ex_props (Inr ex_session_existing) (Inl TransportFailure)
          initial_panel) = js_of ''s1''
   \<and> toasts (initializeChat ex_props (Inr ex_session_existing) (Inl TransportFailure)
          initial_panel) = []
   \<and> messages (initializeChat ex_props (Inl TransportFailure) (Inl TransportFailure)
          initial_panel) = []
   \<and> toasts (initializeChat ex_props (Inl TransportFailure) (Inl TransportFailure)
          initial_panel) = [Toast_load_failed]"
  by code_simp

text \<open>
  Claim C3, amended. When the bootstrap resumes an "existing" session and the history
  request fails, \<open>getChatHistory\<close> catches the failure itself and returns the empty
  history: the bootstrap goes on as with an empty history, sets the session id, falls
  back to the single welcome entry and shows no failure notification. The delete and
  probe calls catch in the same way and give false.
\<close>

theorem history_failure_degrades:
  assumes "status session = js_of ''existing''"
  shows "getChatHistory (Inl e) = Inr []
       \<and> initializeChat p (Inr session) (Inl e) w0 =
           initializeChat p (Inr session) (Inr \<lparr>history = Some []\<rparr>) w0
       \<and> fst (initializeChat_try p (Inr session) (Inl e) w0) = None
       \<and> messages (initializeChat p (Inr session) (Inl e) w0) = [welcome_entry session]
       \<and> sessionId (initializeChat p (Inr session) (Inl e) w0) = session_id session
       \<and> toasts (initializeChat p (Inr session) (Inl e) w0) = toasts w0
       \<and> list_all (\<lambda>t. \<not> toast_error t)
             (toasts (initializeChat p (Inr session) (Inl e) initial_panel))
       \<and> deleteSession (Inl e) = Inr False
       \<and> testConnection (Inl e) = Inr False"
proof -
  have h: "getChatHistory (Inl e) = Inr []"
    by (simp add: getChatHistory_def try_catch_def)
  show ?thesis
    by (simp add: h initializeChat_existing [OF assms h]
        initializeChat_existing [OF assms getChatHistory_fetched]
        initializeChat_try_thrown deleteSession_def testConnection_def try_catch_def
        initial_panel_def)
qed

theorem history_failure_degrades_witness:
  "status ex_session_existing = js_of ''existing''
   \<and> messages (initializeChat ex_props (Inr ex_session_existing) (Inl TransportFailure)
        initial_panel) = [welcome_entry ex_session_existing]
   \<and> toasts (initializeChat ex_props (Inr ex_session_existing) (Inl TransportFailure)
        initial_panel) = []"
proof -
  have s: "status ex_session_existing = js_of ''existing''"
    by (simp add: ex_session_existing_def)
  have t: "toasts initial_panel = []"
    by (simp add: initial_panel_def)
  from history_failure_degrades [OF s, of TransportFailure ex_props initial_panel]
  have "messages (initializeChat ex_props (Inr ex_session_existing) (Inl TransportFailure)
        initial_panel) = [welcome_entry ex_session_existing]"
    and "toasts (initializeChat ex_props (Inr ex_session_existing) (Inl TransportFailure)
        initial_panel) = toasts initial_panel"
    by blast+
  with s t show ?thesis by simp
qed

section \<open>The message list after the bootstrap\<close>

lemma handleDeleteMessage_keeps_first:
  assumes "handleDeleteMessage w i = Inr w'" and "messages w \<noteq> []"
  shows "messages w' \<noteq> [] \<and> hd (messages w') = hd (messages w)"
proof (cases "i = 0")
  case True
  with assms show ?thesis by (auto simp add: handleDeleteMessage_def)
next
  case False
  with assms(1) have b: "0 < i" "i < int (length (messages w))"
    by (auto simp add: handleDeleteMessage_def js_index_def Let_def
        split: if_splits option.splits)
  then have "take (nat i) (messages w) \<noteq> []" and "hd (take (nat i) (messages w)) = hd (messages w)"
    using assms(2) by (cases "messages w"; cases "nat i"; simp)+
  with assms(1) show ?thesis
    by (auto simp add: handleDeleteMessage_in_bounds [OF b])
qed

lemma handleSendMessage_keeps_nonempty:
  assumes "messages w \<noteq> []"
  shows "messages (handleSendMessage t p w r) \<noteq> []"
proof (cases "trim (inputMessage w) = [] \<or> sessionId w = [] \<or> isLoading w")
  case True
  with assms show ?thesis by (simp add: handleSendMessage_guarded)
next
  case False
  then have g: "trim (inputMessage w) \<noteq> []" "sessionId w \<noteq> []" "\<not> isLoading w"
    by simp_all
  show ?thesis using assms
    by (cases r) (simp_all add: handleSendMessage_def issue_open [OF g] settle_failure
        settle_success)
qed

text \<open>
  Claim C10 fails on the code. After a bootstrap that left the welcome entry, the user
  types a question and submits it, deletes the question (index 1) while the request is
  outstanding, and the request fails: the rollback removes the last entry of the list
  as it is then, which is the welcome entry, and the list is empty.
\<close>

theorem rollback_after_delete_empties_list:
  "messages (initializeChat ex_props (Inr ex_session_new) (Inl TransportFailure) initial_panel)
     = [ex_W]
   \<and> messages (run ex_props
        (initializeChat ex_props (Inr ex_session_new) (Inl TransportFailure) initial_panel)
        [Change (js_of ''What is X?''), Submit]) =
       [ex_W, \<lparr>role = User, content = js_of ''What is X?'', timestamp = None\<rparr>]
   \<and> messages (run ex_props
        (initializeChat ex_props (Inr ex_session_new) (Inl TransportFailure) initial_panel)
        [Change (js_of ''What is X?''), Submit, Delete 1]) = [ex_W]
   \<and> messages (run ex_props
        (initializeChat ex_props (Inr ex_session_new) (Inl TransportFailure) initial_panel)
        [Change (js_of ''What is X?''), Submit, Delete 1, Settle (Inl TransportFailure)]) = []"
  by code_simp

end
